theory Spec2Isabelle
  imports Complex_Main
begin

section \<open>Data model\<close>

subsection \<open>Python floats\<close>

text \<open>
  The classifier receives \<^verbatim>\<open>float(price_signal.rrp)\<close>. A Python float is an IEEE 754
  double: a finite value (always a rational number), one of the two infinities, or NaN.
  Only the comparison \<^verbatim>\<open><\<close> is used by the code; \<^verbatim>\<open><=\<close> is needed to state the bands.
  Every comparison with NaN is false.
\<close>

datatype pyfloat = Finite rat | PosInf | NegInf | NaN

fun float_lt :: "pyfloat \<Rightarrow> pyfloat \<Rightarrow> bool" where
  "float_lt NaN _ = False"
| "float_lt _ NaN = False"
| "float_lt (Finite a) (Finite b) = (a < b)"
| "float_lt (Finite a) PosInf = True"
| "float_lt (Finite a) NegInf = False"
| "float_lt PosInf _ = False"
| "float_lt NegInf (Finite b) = True"
| "float_lt NegInf PosInf = True"
| "float_lt NegInf NegInf = False"

fun float_le :: "pyfloat \<Rightarrow> pyfloat \<Rightarrow> bool" where
  "float_le NaN _ = False"
| "float_le _ NaN = False"
| "float_le (Finite a) (Finite b) = (a \<le> b)"
| "float_le (Finite a) PosInf = True"
| "float_le (Finite a) NegInf = False"
| "float_le PosInf (Finite b) = False"
| "float_le PosInf PosInf = True"
| "float_le PosInf NegInf = False"
| "float_le NegInf _ = True"

subsection \<open>Timestamps and price records\<close>

text \<open>
  A \<^verbatim>\<open>datetime\<close> object: its calendar fields and, for an aware object, its
  \<^verbatim>\<open>utcoffset()\<close> in microseconds (\<open>None\<close> for a naive object).
\<close>

record datetime =
  year :: nat
  month :: nat
  day :: nat
  hour :: nat
  minute :: nat
  second :: nat
  microsecond :: nat
  tzinfo :: "int option"

text \<open>
  \<^verbatim>\<open>PriceSignal.settlementdate\<close> is either a \<^verbatim>\<open>datetime\<close> or some other object, of
  which the code only uses \<^verbatim>\<open>str(...)\<close>.
\<close>

datatype settlement = DT datetime | Str string

text \<open>The field \<open>rrp\<close> holds the value of \<^verbatim>\<open>float(price_signal.rrp)\<close>.\<close>

record price_signal =
  settlementdate :: settlement
  rrp :: pyfloat

record observation =
  t :: string
  p :: string
  n :: int

text \<open>
  The payload \<^verbatim>\<open>{"metadata": {"points": {...}}, "data": [...]}\<close>; the point table is a
  dictionary with string keys, kept in insertion order.
\<close>

record envelope =
  points :: "(string \<times> string) list"
  data :: "observation list"

subsection \<open>Errors, JSON values and the environment\<close>

text \<open>Each exception carries its message, the value of \<^verbatim>\<open>str(e)\<close>.\<close>

datatype error = ValueError string | RequestException string | DatabaseError string

fun error_str :: "error \<Rightarrow> string" where
  "error_str (ValueError m) = m"
| "error_str (RequestException m) = m"
| "error_str (DatabaseError m) = m"

text \<open>A value handed to \<^verbatim>\<open>json.dumps\<close>.\<close>

datatype json = JStr string | JInt int | JObj "(string \<times> json) list"

record upload_result =
  statusCode :: int
  body :: string

record handler_response =
  resp_statusCode :: int
  resp_body :: json

text \<open>
  \<^verbatim>\<open>datetime.fromisoformat\<close> belongs to the standard library and its grammar depends on
  the interpreter version; it is a parameter of the model. \<open>Inl m\<close> stands for
  \<^verbatim>\<open>raise ValueError(m)\<close>.
\<close>

type_synonym parser = "string \<Rightarrow> string + datetime"

text \<open>
  The outcome of \<^verbatim>\<open>requests.post(...)\<close> followed by \<^verbatim>\<open>response.raise_for_status()\<close>,
  both of the \<^verbatim>\<open>requests\<close> library: a response with its status code and text, or a
  \<^verbatim>\<open>RequestException\<close> with its message (transport failure, timeout, error status).
  The network is a parameter of the model: it answers the \<open>k\<close>-th request of a run
  (counted from 0) carrying a given payload.
\<close>

datatype http_outcome = Response int string | Raised string

type_synonym network = "nat \<Rightarrow> envelope \<Rightarrow> http_outcome"

section \<open>config.py\<close>

definition DCH_DATA_POOL_ID :: string where
  "DCH_DATA_POOL_ID = ''evse_kerbside_wholesale_price_drf''"

definition DCH_POINT_ID :: string where
  "DCH_POINT_ID = ''wholesale_price_drf''"

section \<open>main.py\<close>

definition calculate_rrp_value :: "pyfloat \<Rightarrow> int" where
  "calculate_rrp_value r =
     (if float_lt r (Finite 500) then 0
      else if float_lt r (Finite 1000) then 1
      else 2)"

subsection \<open>Formatting with \<^verbatim>\<open>strftime("%Y-%m-%dT%H:%M:%SZ")\<close>\<close>

definition digit :: "nat \<Rightarrow> char" where
  "digit k = ''0123456789'' ! (k mod 10)"

text \<open>\<^verbatim>\<open>%m\<close>, \<^verbatim>\<open>%d\<close>, \<^verbatim>\<open>%H\<close>, \<^verbatim>\<open>%M\<close>, \<^verbatim>\<open>%S\<close>: two digits, zero-padded.\<close>

definition pad2 :: "nat \<Rightarrow> string" where
  "pad2 k = [digit (k div 10), digit k]"

text \<open>
  \<^verbatim>\<open>%Y\<close> is handed to the C library, which prints the year as a decimal number. The
  GNU library does not pad it, so a year below 1000 has fewer than four digits; from
  1000 to 9999 it has exactly four on every platform.
\<close>

fun decimal :: "nat \<Rightarrow> string" where
  "decimal k = (if k < 10 then [digit k] else decimal (k div 10) @ [digit k])"

text \<open>The format has no directive that reads the offset: \<open>Z\<close> is a literal character.\<close>

definition strftime_Z :: "datetime \<Rightarrow> string" where
  "strftime_Z d =
     decimal (year d) @ ''-'' @ pad2 (month d) @ ''-'' @ pad2 (day d) @ ''T'' @
     pad2 (hour d) @ '':'' @ pad2 (minute d) @ '':'' @ pad2 (second d) @ ''Z''"

subsection \<open>\<^verbatim>\<open>construct_dch_payload\<close>\<close>

definition composite_point_id :: string where
  "composite_point_id = ''evse:'' @ DCH_DATA_POOL_ID @ '':'' @ DCH_POINT_ID"

text \<open>Lines 63 to 66: the \<^verbatim>\<open>isinstance\<close> test and the parse of anything else.\<close>

definition timestamp_of :: "parser \<Rightarrow> price_signal \<Rightarrow> error + datetime" where
  "timestamp_of fromisoformat s =
     (case settlementdate s of
        DT d \<Rightarrow> Inr d
      | Str x \<Rightarrow> (case fromisoformat x of Inl m \<Rightarrow> Inl (ValueError m) | Inr d \<Rightarrow> Inr d))"

text \<open>The body of the loop, lines 62 to 78, for one record.\<close>

definition make_observation :: "parser \<Rightarrow> price_signal \<Rightarrow> error + observation" where
  "make_observation fromisoformat s =
     (case timestamp_of fromisoformat s of
        Inl e \<Rightarrow> Inl e
      | Inr timestamp \<Rightarrow>
          Inr \<lparr>t = strftime_Z timestamp, p = ''0'', n = calculate_rrp_value (rrp s)\<rparr>)"

text \<open>The loop of lines 61 to 80; \<open>acc\<close> is \<^verbatim>\<open>dch_payload["data"]\<close>.\<close>

fun append_observations ::
  "parser \<Rightarrow> price_signal list \<Rightarrow> observation list \<Rightarrow> error + observation list" where
  "append_observations fromisoformat [] acc = Inr acc"
| "append_observations fromisoformat (s # rest) acc =
     (case make_observation fromisoformat s of
        Inl e \<Rightarrow> Inl e
      | Inr ob \<Rightarrow> append_observations fromisoformat rest (acc @ [ob]))"

definition construct_dch_payload :: "parser \<Rightarrow> price_signal list \<Rightarrow> error + envelope" where
  "construct_dch_payload fromisoformat price_signals =
     (if price_signals = [] then Inr \<lparr>points = [], data = []\<rparr>
      else
        (case append_observations fromisoformat price_signals [] of
           Inl e \<Rightarrow> Inl e
         | Inr obs \<Rightarrow> Inr \<lparr>points = [(''0'', composite_point_id)], data = obs\<rparr>))"

subsection \<open>\<^verbatim>\<open>upload_to_dch\<close>\<close>

text \<open>
  The state threaded through a run is the list of payloads posted so far. A
  \<^verbatim>\<open>RequestException\<close> is logged and raised again.
\<close>

definition upload_to_dch ::
  "network \<Rightarrow> envelope list \<Rightarrow> envelope \<Rightarrow> envelope list \<times> (error + upload_result)" where
  "upload_to_dch net sent payload =
     (sent @ [payload],
      (case net (length sent) payload of
         Response code text \<Rightarrow> Inr \<lparr>statusCode = code, body = text\<rparr>
       | Raised m \<Rightarrow> Inl (RequestException m)))"

subsection \<open>\<^verbatim>\<open>lambda_handler\<close>\<close>

definition error_response :: "error \<Rightarrow> handler_response" where
  "error_response e =
     \<lparr>resp_statusCode = 500,
      resp_body = JObj [(''error'', JStr (error_str e)),
                        (''message'', JStr ''Failed to process and upload price signals'')]\<rparr>"

text \<open>
  \<open>fetched\<close> is the outcome of \<^verbatim>\<open>get_last_hour_price_signals(region_id="NSW1")\<close>. The
  result pairs the returned dictionary with the payloads posted during the call;
  \<open>resp_body\<close> is the value given to \<^verbatim>\<open>json.dumps\<close>.
\<close>

definition lambda_handler ::
  "parser \<Rightarrow> network \<Rightarrow> error + price_signal list \<Rightarrow> handler_response \<times> envelope list" where
  "lambda_handler fromisoformat net fetched =
     (case fetched of
        Inl e \<Rightarrow> (error_response e, [])
      | Inr price_signals \<Rightarrow>
          if price_signals = [] then
            (\<lparr>resp_statusCode = 200,
              resp_body = JObj [(''message'', JStr ''No price signals found for the last hour'')]\<rparr>,
             [])
          else
            (case construct_dch_payload fromisoformat price_signals of
               Inl e \<Rightarrow> (error_response e, [])
             | Inr dch_payload \<Rightarrow>
                 (case upload_to_dch net [] dch_payload of
                    (sent, Inl e) \<Rightarrow> (error_response e, sent)
                  | (sent, Inr upload_result) \<Rightarrow>
                      (\<lparr>resp_statusCode = 200,
                        resp_body = JObj
                          [(''message'',
                            JStr ''Successfully processed and uploaded price signals to DCH''),
                           (''price_signals_processed'', JInt (int (length price_signals))),
                           (''dch_response'',
                            JObj [(''statusCode'', JInt (statusCode upload_result)),
                                  (''body'', JStr (body upload_result))])]\<rparr>,
                       sent))))"

section \<open>backfill.py\<close>

subsection \<open>\<^verbatim>\<open>batch_list\<close>\<close>

text \<open>
  The loop over \<^verbatim>\<open>range(0, len(items), batch_size)\<close> for a positive step; the slice
  \<^verbatim>\<open>items[i : i + batch_size]\<close> is \<open>take batch_size (drop i items)\<close>.
\<close>

function batch_loop :: "'a list \<Rightarrow> nat \<Rightarrow> nat \<Rightarrow> 'a list list \<Rightarrow> 'a list list" where
  "batch_loop items batch_size i batches =
     (if 0 < batch_size \<and> i < length items
      then batch_loop items batch_size (i + batch_size)
             (batches @ [take batch_size (drop i items)])
      else batches)"
  by pat_completeness auto
termination
  by (relation "measure (\<lambda>(items, batch_size, i, batches). length items - i)") auto

text \<open>\<^verbatim>\<open>range\<close> raises on a zero step and is empty for a negative one.\<close>

definition batch_list :: "'a list \<Rightarrow> int \<Rightarrow> error + 'a list list" where
  "batch_list items batch_size =
     (if batch_size = 0 then Inl (ValueError ''range() arg 3 must not be zero'')
      else if batch_size < 0 then Inr []
      else Inr (batch_loop items (nat batch_size) 0 []))"

subsection \<open>\<^verbatim>\<open>main\<close>\<close>

record run_state =
  sent_payloads :: "envelope list"
  successful_uploads :: int
  failed_uploads :: int

text \<open>
  Lines 135 to 157, the body of the loop for one batch: the \<^verbatim>\<open>try\<close> holds both the
  construction of the payload and the upload, and \<^verbatim>\<open>except Exception\<close> counts any
  failure of either.
\<close>

definition process_batch ::
  "parser \<Rightarrow> network \<Rightarrow> run_state \<Rightarrow> price_signal list \<Rightarrow> run_state" where
  "process_batch fromisoformat net st batch =
     (case construct_dch_payload fromisoformat batch of
        Inl e \<Rightarrow> st\<lparr>failed_uploads := failed_uploads st + 1\<rparr>
      | Inr dch_payload \<Rightarrow>
          (case upload_to_dch net (sent_payloads st) dch_payload of
             (sent, Inr upload_result) \<Rightarrow>
               st\<lparr>sent_payloads := sent, successful_uploads := successful_uploads st + 1\<rparr>
           | (sent, Inl e) \<Rightarrow>
               st\<lparr>sent_payloads := sent, failed_uploads := failed_uploads st + 1\<rparr>))"

text \<open>The loop of line 127.\<close>

fun upload_batches ::
  "parser \<Rightarrow> network \<Rightarrow> price_signal list list \<Rightarrow> run_state \<Rightarrow> run_state" where
  "upload_batches fromisoformat net [] st = st"
| "upload_batches fromisoformat net (batch # rest) st =
     upload_batches fromisoformat net rest (process_batch fromisoformat net st batch)"

text \<open>
  What a run of \<^verbatim>\<open>main\<close> leaves behind: the exit code, the payloads posted, and the
  numbers of the closing log line (total observations, successful batches, failed
  batches) when that line is reached.
\<close>

record main_result =
  exit_code :: int
  posted :: "envelope list"
  summary :: "(int \<times> int \<times> int) option"

definition BATCH_SIZE :: int where
  "BATCH_SIZE = 50"

text \<open>\<open>fetched\<close> is the outcome of \<^verbatim>\<open>get_all_price_signals(region_id="NSW1")\<close>.\<close>

definition main :: "parser \<Rightarrow> network \<Rightarrow> error + price_signal list \<Rightarrow> main_result" where
  "main fromisoformat net fetched =
     (case fetched of
        Inl e \<Rightarrow> \<lparr>exit_code = 1, posted = [], summary = None\<rparr>
      | Inr price_signals \<Rightarrow>
          if price_signals = [] then \<lparr>exit_code = 0, posted = [], summary = None\<rparr>
          else
            (case batch_list price_signals BATCH_SIZE of
               Inl e \<Rightarrow> \<lparr>exit_code = 1, posted = [], summary = None\<rparr>
             | Inr batches \<Rightarrow>
                 (let st = upload_batches fromisoformat net batches
                             \<lparr>sent_payloads = [], successful_uploads = 0, failed_uploads = 0\<rparr>
                  in \<lparr>exit_code = (if failed_uploads st = 0 then 0 else 1),
                      posted = sent_payloads st,
                      summary = Some (int (length price_signals),
                                      successful_uploads st, failed_uploads st)\<rparr>)))"

section \<open>Reference notions used to state the properties\<close>

subsection \<open>The instant of a timestamp in UTC\<close>

text \<open>
  The specification speaks of a record's settlement instant expressed in UTC. For an
  aware timestamp that is the wall-clock time minus the offset, with the date moved by
  at most one day (an offset is shorter than 24 hours); a naive timestamp is read as
  UTC already. These definitions follow the specification's words, not the code, which
  has no such conversion.
\<close>

definition is_leap :: "nat \<Rightarrow> bool" where
  "is_leap y = (y mod 4 = 0 \<and> (y mod 100 \<noteq> 0 \<or> y mod 400 = 0))"

definition days_in_month :: "nat \<Rightarrow> nat \<Rightarrow> nat" where
  "days_in_month y m =
     (if m = 2 then (if is_leap y then 29 else 28)
      else if m = 4 \<or> m = 6 \<or> m = 9 \<or> m = 11 then 30
      else 31)"

definition next_day :: "nat \<times> nat \<times> nat \<Rightarrow> nat \<times> nat \<times> nat" where
  "next_day ymd =
     (case ymd of (y, m, d) \<Rightarrow>
        if d < days_in_month y m then (y, m, d + 1)
        else if m < 12 then (y, m + 1, 1)
        else (y + 1, 1, 1))"

definition prev_day :: "nat \<times> nat \<times> nat \<Rightarrow> nat \<times> nat \<times> nat" where
  "prev_day ymd =
     (case ymd of (y, m, d) \<Rightarrow>
        if 1 < d then (y, m, d - 1)
        else if 1 < m then (y, m - 1, days_in_month y (m - 1))
        else (y - 1, 12, 31))"

definition valid_datetime :: "datetime \<Rightarrow> bool" where
  "valid_datetime d =
     (1 \<le> year d \<and> year d \<le> 9999 \<and> 1 \<le> month d \<and> month d \<le> 12 \<and>
      1 \<le> day d \<and> day d \<le> days_in_month (year d) (month d) \<and>
      hour d < 24 \<and> minute d < 60 \<and> second d < 60 \<and> microsecond d < 1000000)"

definition utc_instant :: "datetime \<Rightarrow> datetime" where
  "utc_instant d =
     (case tzinfo d of
        None \<Rightarrow> d
      | Some off \<Rightarrow>
          (let us = (int (hour d * 60 + minute d) * 60 + int (second d)) * 1000000
                      + int (microsecond d) - off;
               shift = us div 86400000000;
               r = us mod 86400000000;
               ymd = (year d, month d, day d);
               ymd' = (if shift < 0 then prev_day ymd
                       else if 0 < shift then next_day ymd
                       else ymd)
           in \<lparr>year = fst ymd', month = fst (snd ymd'), day = snd (snd ymd'),
               hour = nat (r div 3600000000), minute = nat (r div 60000000 mod 60),
               second = nat (r div 1000000 mod 60), microsecond = nat (r mod 1000000),
               tzinfo = Some 0\<rparr>))"

subsection \<open>The uploads a run attempts\<close>

text \<open>
  The payloads of the batches whose envelope can be built, in the order of the batches:
  what a run posts when no batch is skipped.
\<close>

definition built_payloads :: "parser \<Rightarrow> price_signal list list \<Rightarrow> envelope list" where
  "built_payloads fromisoformat batches =
     concat (map (\<lambda>batch. case construct_dch_payload fromisoformat batch of
                              Inl e \<Rightarrow> []
                            | Inr dch_payload \<Rightarrow> [dch_payload]) batches)"


subsection \<open>An instance of the parser\<close>

text \<open>
  The theorems below hold for every parser. To run the model on concrete strings, this
  instance reads the fragment of the ISO 8601 grammar that every version of
  \<^verbatim>\<open>datetime.fromisoformat\<close> accepts with the same result:
  \<^verbatim>\<open>YYYY-MM-DD\<close>, a \<^verbatim>\<open>T\<close> or a space, \<^verbatim>\<open>HH:MM:SS\<close>, and an optional offset
  \<^verbatim>\<open>+HH:MM\<close> or \<^verbatim>\<open>-HH:MM\<close>. It is only applied to strings of that shape and to
  strings that no version accepts.
\<close>

definition digit_value :: "char \<Rightarrow> nat option" where
  "digit_value c =
     map_of [(CHR ''0'', 0), (CHR ''1'', 1), (CHR ''2'', 2), (CHR ''3'', 3), (CHR ''4'', 4),
             (CHR ''5'', 5), (CHR ''6'', 6), (CHR ''7'', 7), (CHR ''8'', 8), (CHR ''9'', 9)] c"

fun number_from :: "nat \<Rightarrow> string \<Rightarrow> nat option" where
  "number_from k [] = Some k"
| "number_from k (c # cs) =
     (case digit_value c of None \<Rightarrow> None | Some d \<Rightarrow> number_from (10 * k + d) cs)"

definition iso_fields :: "string \<Rightarrow> nat list option" where
  "iso_fields s =
     (if length s = 19 \<and> s ! 4 = CHR ''-'' \<and> s ! 7 = CHR ''-'' \<and>
         (s ! 10 = CHR ''T'' \<or> s ! 10 = CHR '' '') \<and>
         s ! 13 = CHR '':'' \<and> s ! 16 = CHR '':''
      then those (map (number_from 0)
                    [take 4 s, take 2 (drop 5 s), take 2 (drop 8 s),
                     take 2 (drop 11 s), take 2 (drop 14 s), take 2 (drop 17 s)])
      else None)"

text \<open>\<open>Some None\<close>: no offset, a naive timestamp; \<open>None\<close>: not an offset.\<close>

definition iso_offset :: "string \<Rightarrow> int option option" where
  "iso_offset z =
     (if z = [] then Some None
      else if length z = 6 \<and> (z ! 0 = CHR ''+'' \<or> z ! 0 = CHR ''-'') \<and> z ! 3 = CHR '':''
      then
        (case those (map (number_from 0) [take 2 (drop 1 z), take 2 (drop 4 z)]) of
           None \<Rightarrow> None
         | Some hm \<Rightarrow>
             if hm ! 0 < 24 \<and> hm ! 1 < 60
             then Some (Some ((if z ! 0 = CHR ''-'' then - 1 else 1) *
                              (int (hm ! 0 * 60 + hm ! 1) * 60000000)))
             else None)
      else None)"

text \<open>
  The message of the \<^verbatim>\<open>ValueError\<close>; \<^verbatim>\<open>repr\<close> of a string without quotes or escapes
  is the string between single quotes.
\<close>

definition invalid_isoformat :: "string \<Rightarrow> string" where
  "invalid_isoformat s = ''Invalid isoformat string: '' @ [CHR 0x27] @ s @ [CHR 0x27]"

definition iso_fragment_parser :: parser where
  "iso_fragment_parser s =
     (case (iso_fields (take 19 s), iso_offset (drop 19 s)) of
        (Some f, Some tz) \<Rightarrow>
          (let d = \<lparr>year = f ! 0, month = f ! 1, day = f ! 2, hour = f ! 3, minute = f ! 4,
                    second = f ! 5, microsecond = 0, tzinfo = tz\<rparr>
           in if valid_datetime d then Inr d
              else Inl (invalid_isoformat s))
      | _ \<Rightarrow> Inl (invalid_isoformat s))"

subsection \<open>Concrete runs\<close>

definition naive :: "nat \<Rightarrow> nat \<Rightarrow> nat \<Rightarrow> nat \<Rightarrow> nat \<Rightarrow> nat \<Rightarrow> datetime" where
  "naive y mo d h mi s =
     \<lparr>year = y, month = mo, day = d, hour = h, minute = mi, second = s, microsecond = 0,
      tzinfo = None\<rparr>"

text \<open>The three records of the specification's end-to-end scenario.\<close>

definition scenario_signals :: "price_signal list" where
  "scenario_signals =
     [\<lparr>settlementdate = DT (naive 2024 1 1 0 0 0), rrp = Finite 450\<rparr>,
      \<lparr>settlementdate = DT (naive 2024 1 1 0 5 0), rrp = Finite 750\<rparr>,
      \<lparr>settlementdate = Str ''2024-01-01 00:10:00'', rrp = Finite 1500\<rparr>]"

text \<open>10:00 at an offset of ten hours east of UTC, carried and as a string.\<close>

definition sydney_morning :: datetime where
  "sydney_morning = (naive 2024 1 1 10 0 0)\<lparr>tzinfo := Some 36000000000\<rparr>"

definition sydney_signal :: price_signal where
  "sydney_signal = \<lparr>settlementdate = DT sydney_morning, rrp = Finite 450\<rparr>"

definition sydney_signal_str :: price_signal where
  "sydney_signal_str = \<lparr>settlementdate = Str ''2024-01-01T10:00:00+10:00'', rrp = Finite 450\<rparr>"

definition good_signal :: price_signal where
  "good_signal = \<lparr>settlementdate = DT (naive 2024 1 1 0 0 0), rrp = Finite 450\<rparr>"

definition bad_signal :: price_signal where
  "bad_signal = \<lparr>settlementdate = Str ''not-a-date'', rrp = Finite 450\<rparr>"

text \<open>An aware timestamp carried, the same one as a string, and a naive one.\<close>

definition mixed_signals :: "price_signal list" where
  "mixed_signals = [sydney_signal, sydney_signal_str, good_signal]"

text \<open>A network that accepts every request, and one whose second request fails.\<close>

definition accepting_network :: network where
  "accepting_network k payload = Response 200 ''ok''"


section \<open>Properties\<close>

subsection \<open>The classifier\<close>

text \<open>
  C4: the classifier is total, with values in \<open>{0, 1, 2}\<close>: a price below 500 (negative
  and zero prices included) gives 0, a price from 500 up to but excluding 1000 gives 1,
  a price of 1000 or more gives 2. The boundary cases are checked at the decimal values
  and at the doubles nearest to 499.99 and 999.99.
\<close>

theorem classifier_bands:
  "(float_lt q (Finite 500) \<longrightarrow> calculate_rrp_value q = 0) \<and>
   (float_le (Finite 500) q \<and> float_lt q (Finite 1000) \<longrightarrow> calculate_rrp_value q = 1) \<and>
   (float_le (Finite 1000) q \<longrightarrow> calculate_rrp_value q = 2) \<and>
   calculate_rrp_value q \<in> {0, 1, 2} \<and>
   calculate_rrp_value (Finite 0) = 0 \<and>
   calculate_rrp_value (Finite (- 1000)) = 0 \<and>
   calculate_rrp_value NegInf = 0 \<and>
   calculate_rrp_value (Finite (49999 / 100)) = 0 \<and>
   calculate_rrp_value (Finite (2198979275086889 / 4398046511104)) = 0 \<and>
   calculate_rrp_value (Finite 500) = 1 \<and>
   calculate_rrp_value (Finite (99999 / 100)) = 1 \<and>
   calculate_rrp_value (Finite (4398002530638889 / 4398046511104)) = 1 \<and>
   calculate_rrp_value (Finite 1000) = 2 \<and>
   calculate_rrp_value PosInf = 2"
  by (cases q) (simp_all add: calculate_rrp_value_def)

theorem classifier_bands_witness:
  "float_lt (Finite (- 20)) (Finite 500) \<and> calculate_rrp_value (Finite (- 20)) = 0 \<and>
   float_le (Finite 500) (Finite 750) \<and> float_lt (Finite 750) (Finite 1000) \<and>
   calculate_rrp_value (Finite 750) = 1 \<and>
   float_le (Finite 1000) (Finite 1500) \<and> calculate_rrp_value (Finite 1500) = 2"
  using classifier_bands [of "Finite (- 20)"] classifier_bands [of "Finite 750"]
    classifier_bands [of "Finite 1500"]
  by simp

text \<open>
  C10: both comparisons of the classifier are false for NaN, so a NaN price falls
  through to the last branch and is classified 2.
\<close>

theorem nan_classifies_top:
  "\<not> float_lt NaN (Finite 500) \<and> \<not> float_lt NaN (Finite 1000) \<and> calculate_rrp_value NaN = 2"
  by (simp add: calculate_rrp_value_def)

subsection \<open>The payload builder\<close>

text \<open>
  C8: for the empty list of records the builder returns, without failing, the envelope
  with an empty point table and an empty data sequence.
\<close>

theorem build_empty:
  "construct_dch_payload fromisoformat [] = Inr \<lparr>points = [], data = []\<rparr>"
  by (simp add: construct_dch_payload_def)

theorem build_empty_witness:
  "construct_dch_payload iso_fragment_parser [] = Inr \<lparr>points = [], data = []\<rparr>"
  using build_empty [of iso_fragment_parser] .

lemma timestamp_of_Inl:
  "timestamp_of f s = Inl e \<longleftrightarrow> (\<exists>x m. settlementdate s = Str x \<and> f x = Inl m \<and> e = ValueError m)"
  by (auto simp: timestamp_of_def split: settlement.splits sum.splits)

lemma timestamp_of_total:
  "\<forall>x. settlementdate s = Str x \<longrightarrow> (\<exists>d. f x = Inr d) \<Longrightarrow> \<exists>d. timestamp_of f s = Inr d"
  by (cases "settlementdate s") (auto simp: timestamp_of_def)

lemma make_observation_Inl:
  "make_observation f s = Inl e \<longleftrightarrow> timestamp_of f s = Inl e"
  by (simp add: make_observation_def split: sum.splits)

lemma make_observation_Inr:
  "timestamp_of f s = Inr d \<Longrightarrow>
   make_observation f s = Inr \<lparr>t = strftime_Z d, p = ''0'', n = calculate_rrp_value (rrp s)\<rparr>"
  by (simp add: make_observation_def)

lemma append_observations_ok:
  "\<forall>s \<in> set xs. \<exists>ob. make_observation f s = Inr ob \<Longrightarrow>
   append_observations f xs acc = Inr (acc @ map (\<lambda>s. projr (make_observation f s)) xs)"
proof (induction xs arbitrary: acc)
  case Nil
  show ?case by simp
next
  case (Cons s xs)
  from Cons.prems obtain ob where ob: "make_observation f s = Inr ob"
    by auto
  from Cons.prems have "\<forall>s \<in> set xs. \<exists>ob. make_observation f s = Inr ob"
    by simp
  then have "append_observations f xs (acc @ [ob]) =
      Inr ((acc @ [ob]) @ map (\<lambda>s. projr (make_observation f s)) xs)"
    by (rule Cons.IH)
  with ob show ?case
    by simp
qed

lemma append_observations_fail:
  "s \<in> set xs \<Longrightarrow> make_observation f s = Inl e \<Longrightarrow>
   \<exists>s' \<in> set xs. \<exists>e'. make_observation f s' = Inl e' \<and> append_observations f xs acc = Inl e'"
proof (induction xs arbitrary: acc)
  case Nil
  then show ?case by simp
next
  case (Cons a xs)
  show ?case
  proof (cases "make_observation f a")
    case (Inl e')
    then show ?thesis by auto
  next
    case (Inr ob)
    with Cons.prems have "s \<in> set xs"
      by auto
    from Cons.IH [OF this Cons.prems(2), of "acc @ [ob]"] Inr show ?thesis
      by auto
  qed
qed

text \<open>Runs of the model on the concrete inputs used below.\<close>

declare decimal.simps [simp del]

lemma decimal_four:
  assumes "1000 \<le> k" and "k \<le> 9999"
  shows "decimal k = [digit (k div 1000), digit (k div 100), digit (k div 10), digit k]"
proof -
  have a: "k div 10 div 10 = k div 100" "k div 100 div 10 = k div 1000"
    by (simp_all add: div_mult2_eq [symmetric])
  from assms have sizes: "\<not> k < 10" "\<not> k div 10 < 10" "\<not> k div 100 < 10" "k div 1000 < 10"
    by arith+
  have "decimal k = decimal (k div 10) @ [digit k]"
    using sizes(1) by (subst decimal.simps) simp
  also have "decimal (k div 10) = decimal (k div 100) @ [digit (k div 10)]"
    using sizes(2) by (subst decimal.simps) (simp add: a)
  also have "decimal (k div 100) = decimal (k div 1000) @ [digit (k div 100)]"
    using sizes(3) by (subst decimal.simps) (simp add: a)
  also have "decimal (k div 1000) = [digit (k div 1000)]"
    using sizes(4) by (subst decimal.simps) simp
  finally show ?thesis by simp
qed

lemmas parser_defs = iso_fragment_parser_def iso_fields_def iso_offset_def digit_value_def
  valid_datetime_def days_in_month_def is_leap_def

lemmas builder_defs = construct_dch_payload_def make_observation_def timestamp_of_def
  strftime_Z_def pad2_def decimal_four digit_def calculate_rrp_value_def composite_point_id_def
  DCH_DATA_POOL_ID_def DCH_POINT_ID_def

lemma parse_scenario: "iso_fragment_parser ''2024-01-01 00:10:00'' = Inr (naive 2024 1 1 0 10 0)"
  by (simp add: parser_defs naive_def)

lemma parse_sydney: "iso_fragment_parser ''2024-01-01T10:00:00+10:00'' = Inr sydney_morning"
  by (simp add: parser_defs naive_def sydney_morning_def)

lemma parse_bad: "iso_fragment_parser ''not-a-date'' = Inl (invalid_isoformat ''not-a-date'')"
  by (simp add: parser_defs)

lemma build_scenario:
  "construct_dch_payload iso_fragment_parser scenario_signals =
     Inr \<lparr>points = [(''0'', ''evse:evse_kerbside_wholesale_price_drf:wholesale_price_drf'')],
          data = [\<lparr>t = ''2024-01-01T00:00:00Z'', p = ''0'', n = 0\<rparr>,
                  \<lparr>t = ''2024-01-01T00:05:00Z'', p = ''0'', n = 1\<rparr>,
                  \<lparr>t = ''2024-01-01T00:10:00Z'', p = ''0'', n = 2\<rparr>]\<rparr>"
  by (simp add: scenario_signals_def builder_defs parse_scenario naive_def)

text \<open>
  C5: for a non-empty list of records whose timestamps can all be read (a
  \<^verbatim>\<open>datetime\<close>, or a string that the parser accepts), the builder returns an envelope
  whose point table has the single entry \<open>"0"\<close> with value
  \<open>"evse:" + dataPoolId + ":" + pointId\<close>, and whose data sequence has one observation
  per record, in input order, with \<open>p = "0"\<close> and \<open>n\<close> the class of the record's price.
\<close>

theorem build_nonempty:
  assumes "R \<noteq> []"
    and "\<forall>s \<in> set R. \<forall>x. settlementdate s = Str x \<longrightarrow> (\<exists>d. fromisoformat x = Inr d)"
  shows "\<exists>env. construct_dch_payload fromisoformat R = Inr env \<and>
           points env = [(''0'', ''evse:'' @ DCH_DATA_POOL_ID @ '':'' @ DCH_POINT_ID)] \<and>
           length (data env) = length R \<and>
           (\<forall>i < length R.
              make_observation fromisoformat (R ! i) = Inr (data env ! i) \<and>
              p (data env ! i) = ''0'' \<and>
              n (data env ! i) = calculate_rrp_value (rrp (R ! i)))"
proof -
  let ?ob = "\<lambda>s. projr (make_observation fromisoformat s)"
  have ok: "\<exists>d. timestamp_of fromisoformat s = Inr d" if "s \<in> set R" for s
    using assms(2) that by (intro timestamp_of_total) blast
  then have each: "\<forall>s \<in> set R. \<exists>ob. make_observation fromisoformat s = Inr ob"
    by (blast dest: make_observation_Inr)
  then have "append_observations fromisoformat R [] = Inr (map ?ob R)"
    using append_observations_ok [of R fromisoformat "[]"] by simp
  with assms(1) have build: "construct_dch_payload fromisoformat R =
      Inr \<lparr>points = [(''0'', composite_point_id)], data = map ?ob R\<rparr>"
    by (simp add: construct_dch_payload_def)
  have "make_observation fromisoformat (R ! i) = Inr (?ob (R ! i)) \<and>
        p (?ob (R ! i)) = ''0'' \<and> n (?ob (R ! i)) = calculate_rrp_value (rrp (R ! i))"
    if "i < length R" for i
  proof -
    from that have "R ! i \<in> set R" by simp
    with ok obtain d where "timestamp_of fromisoformat (R ! i) = Inr d" by blast
    then show ?thesis by (simp add: make_observation_Inr)
  qed
  with build show ?thesis
    by (simp add: composite_point_id_def)
qed

theorem build_nonempty_witness:
  "scenario_signals \<noteq> [] \<and>
   construct_dch_payload iso_fragment_parser scenario_signals =
     Inr \<lparr>points = [(''0'', ''evse:evse_kerbside_wholesale_price_drf:wholesale_price_drf'')],
          data = [\<lparr>t = ''2024-01-01T00:00:00Z'', p = ''0'', n = 0\<rparr>,
                  \<lparr>t = ''2024-01-01T00:05:00Z'', p = ''0'', n = 1\<rparr>,
                  \<lparr>t = ''2024-01-01T00:10:00Z'', p = ''0'', n = 2\<rparr>]\<rparr> \<and>
   length scenario_signals = 3 \<and>
   calculate_rrp_value (rrp (scenario_signals ! 2)) = 2"
proof -
  have nonempty: "scenario_signals \<noteq> []"
    by (simp add: scenario_signals_def)
  have parses: "\<forall>s \<in> set scenario_signals. \<forall>x. settlementdate s = Str x \<longrightarrow>
      (\<exists>d. iso_fragment_parser x = Inr d)"
    by (simp add: scenario_signals_def parse_scenario)
  from build_nonempty [OF nonempty parses]
  obtain env where env: "construct_dch_payload iso_fragment_parser scenario_signals = Inr env"
    "length (data env) = length scenario_signals"
    "\<forall>i < length scenario_signals.
       n (data env ! i) = calculate_rrp_value (rrp (scenario_signals ! i))"
    by blast
  from env(1) have d: "data env = [\<lparr>t = ''2024-01-01T00:00:00Z'', p = ''0'', n = 0\<rparr>,
                  \<lparr>t = ''2024-01-01T00:05:00Z'', p = ''0'', n = 1\<rparr>,
                  \<lparr>t = ''2024-01-01T00:10:00Z'', p = ''0'', n = 2\<rparr>]"
    by (auto simp add: build_scenario)
  from env(2) have len: "length scenario_signals = 3"
    by (simp add: d)
  with env(3) have "n (data env ! 2) = calculate_rrp_value (rrp (scenario_signals ! 2))"
    by simp
  then have "calculate_rrp_value (rrp (scenario_signals ! 2)) = 2"
    by (simp add: d)
  with nonempty len show ?thesis
    by (simp add: build_scenario)
qed

text \<open>
  C7: when some record of the list carries a string that the parser rejects, the
  builder fails with the \<^verbatim>\<open>ValueError\<close> of such a record and returns no envelope at all.
\<close>

theorem build_parse_error:
  assumes "s \<in> set R" and "settlementdate s = Str x" and "fromisoformat x = Inl m"
  shows "(\<exists>s' \<in> set R. \<exists>x' m'. settlementdate s' = Str x' \<and> fromisoformat x' = Inl m' \<and>
            construct_dch_payload fromisoformat R = Inl (ValueError m')) \<and>
         (\<forall>env. construct_dch_payload fromisoformat R \<noteq> Inr env)"
proof -
  from assms(2,3) have "make_observation fromisoformat s = Inl (ValueError m)"
    by (simp add: make_observation_Inl timestamp_of_Inl)
  from append_observations_fail [OF assms(1) this, of "[]"]
  obtain s' e' where s': "s' \<in> set R" "make_observation fromisoformat s' = Inl e'"
    "append_observations fromisoformat R [] = Inl e'"
    by blast
  from s'(2) obtain x' m' where "settlementdate s' = Str x'" "fromisoformat x' = Inl m'"
    "e' = ValueError m'"
    by (auto simp: make_observation_Inl timestamp_of_Inl)
  moreover from assms(1) s'(3) have "construct_dch_payload fromisoformat R = Inl e'"
    by (auto simp: construct_dch_payload_def)
  ultimately show ?thesis
    using s'(1) by auto
qed

theorem build_parse_error_witness:
  "bad_signal \<in> set [good_signal, bad_signal, good_signal] \<and>
   settlementdate bad_signal = Str ''not-a-date'' \<and>
   iso_fragment_parser ''not-a-date'' = Inl (invalid_isoformat ''not-a-date'') \<and>
   construct_dch_payload iso_fragment_parser [good_signal, bad_signal, good_signal] =
     Inl (ValueError (invalid_isoformat ''not-a-date''))"
proof -
  have a: "bad_signal \<in> set [good_signal, bad_signal, good_signal]"
    by simp
  have b: "settlementdate bad_signal = Str ''not-a-date''"
    by (simp add: bad_signal_def)
  from build_parse_error [of bad_signal "[good_signal, bad_signal, good_signal]" "''not-a-date''"
      iso_fragment_parser "(invalid_isoformat ''not-a-date'')", OF a b parse_bad]
  obtain s' x' m' where s': "s' \<in> set [good_signal, bad_signal, good_signal]"
    "settlementdate s' = Str x'" "iso_fragment_parser x' = Inl m'"
    "construct_dch_payload iso_fragment_parser [good_signal, bad_signal, good_signal] =
       Inl (ValueError m')"
    by blast
  from s'(1,2) have "x' = ''not-a-date''"
    by (auto simp: good_signal_def bad_signal_def)
  with s'(3) have "m' = (invalid_isoformat ''not-a-date'')"
    by (simp add: parse_bad)
  with s'(4) a b show ?thesis
    by (simp add: parse_bad)
qed

subsection \<open>Timestamps\<close>

lemma div_mod_digit:
  fixes q r c :: int
  assumes "0 \<le> r" "r < c"
  shows "(q * c + r) div c = q" and "(q * c + r) mod c = r"
  using assms by simp_all

lemma utc_instant_same_day:
  assumes "tzinfo d = Some off"
    and "us = (int (hour d * 60 + minute d) * 60 + int (second d)) * 1000000
                + int (microsecond d) - off"
    and "0 \<le> us" "us < 86400000000"
  shows "utc_instant d =
      \<lparr>year = year d, month = month d, day = day d, hour = nat (us div 3600000000),
       minute = nat (us div 60000000 mod 60), second = nat (us div 1000000 mod 60),
       microsecond = nat (us mod 1000000), tzinfo = Some 0\<rparr>"
proof -
  from assms(3,4) have "us div 86400000000 = 0" "us mod 86400000000 = us"
    by simp_all
  then show ?thesis
    unfolding utc_instant_def Let_def assms(1) option.case assms(2) [symmetric]
    by simp
qed

lemma utc_instant_no_offset:
  assumes "valid_datetime d" and "tzinfo d = None \<or> tzinfo d = Some 0"
  shows "utc_instant d = d"
proof (cases "tzinfo d")
  case None
  then show ?thesis by (simp add: utc_instant_def)
next
  case (Some off)
  with assms(2) have off: "tzinfo d = Some 0" by simp
  define H M S U where "H = int (hour d)" and "M = int (minute d)"
    and "S = int (second d)" and "U = int (microsecond d)"
  define us where "us = ((H * 60 + M) * 60 + S) * 1000000 + U"
  from assms(1) have bounds: "0 \<le> H" "H < 24" "0 \<le> M" "M < 60" "0 \<le> S" "S < 60"
    "0 \<le> U" "U < 1000000"
    by (simp_all add: valid_datetime_def H_def M_def S_def U_def)
  have range: "0 \<le> us" "us < 86400000000"
    using bounds by (simp_all add: us_def)
  have "us = H * 3600000000 + (M * 60000000 + S * 1000000 + U)"
    by (simp add: us_def algebra_simps)
  moreover have "0 \<le> M * 60000000 + S * 1000000 + U" "M * 60000000 + S * 1000000 + U < 3600000000"
    using bounds by simp_all
  ultimately have h: "us div 3600000000 = H"
    by (simp only: div_mod_digit)
  have "us = (H * 60 + M) * 60000000 + (S * 1000000 + U)"
    by (simp add: us_def algebra_simps)
  moreover have "0 \<le> S * 1000000 + U" "S * 1000000 + U < 60000000"
    using bounds by simp_all
  ultimately have "us div 60000000 = H * 60 + M"
    by (simp only: div_mod_digit)
  then have m: "us div 60000000 mod 60 = M"
    using bounds by (simp add: div_mod_digit)
  have sec: "us div 1000000 = (H * 60 + M) * 60 + S" and u: "us mod 1000000 = U"
    unfolding us_def using bounds by (simp_all only: div_mod_digit)
  have s: "us div 1000000 mod 60 = S"
    unfolding sec using bounds by (simp only: div_mod_digit)
  have "us = (int (hour d * 60 + minute d) * 60 + int (second d)) * 1000000
                + int (microsecond d) - 0"
    by (simp add: us_def H_def M_def S_def U_def)
  from utc_instant_same_day [OF off this range]
  have "utc_instant d =
      \<lparr>year = year d, month = month d, day = day d, hour = nat H, minute = nat M,
       second = nat S, microsecond = nat U, tzinfo = Some 0\<rparr>"
    by (simp only: h m s u)
  also have "\<dots> = d"
    using off by (simp add: H_def M_def S_def U_def)
  finally show ?thesis .
qed


lemma strftime_Z_fields:
  assumes "1000 \<le> year d" and "year d \<le> 9999"
  shows "strftime_Z d =
      [digit (year d div 1000), digit (year d div 100), digit (year d div 10), digit (year d),
       CHR ''-'', digit (month d div 10), digit (month d),
       CHR ''-'', digit (day d div 10), digit (day d),
       CHR ''T'', digit (hour d div 10), digit (hour d),
       CHR '':'', digit (minute d div 10), digit (minute d),
       CHR '':'', digit (second d div 10), digit (second d), CHR ''Z'']"
  using assms by (simp add: strftime_Z_def pad2_def decimal_four)

lemma strftime_Z_ignores_offset: "strftime_Z (d\<lparr>tzinfo := z\<rparr>) = strftime_Z d"
  by (simp add: strftime_Z_def)

lemma utc_sydney: "strftime_Z (utc_instant sydney_morning) = ''2024-01-01T00:00:00Z''"
  by (simp add: utc_instant_def sydney_morning_def naive_def Let_def strftime_Z_def pad2_def
      decimal_four digit_def)

lemma build_sydney:
  "construct_dch_payload iso_fragment_parser [sydney_signal, sydney_signal_str] =
     Inr \<lparr>points = [(''0'', ''evse:evse_kerbside_wholesale_price_drf:wholesale_price_drf'')],
          data = [\<lparr>t = ''2024-01-01T10:00:00Z'', p = ''0'', n = 0\<rparr>,
                  \<lparr>t = ''2024-01-01T10:00:00Z'', p = ''0'', n = 0\<rparr>]\<rparr>"
  by (simp add: sydney_signal_def sydney_signal_str_def builder_defs parse_sydney
      sydney_morning_def naive_def)

text \<open>
  C2, as stated, fails: the builder does not convert a timestamp to UTC. A record whose
  timestamp is 10:00 at an offset of ten hours east, carried as a \<^verbatim>\<open>datetime\<close> or parsed
  from a string, gets \<open>t = "2024-01-01T10:00:00Z"\<close>, while its instant in UTC is
  \<open>2024-01-01T00:00:00Z\<close>.
\<close>

theorem utc_normalisation_counterexample:
  "timestamp_of iso_fragment_parser sydney_signal = Inr sydney_morning \<and>
   timestamp_of iso_fragment_parser sydney_signal_str = Inr sydney_morning \<and>
   tzinfo sydney_morning = Some 36000000000 \<and>
   strftime_Z (utc_instant sydney_morning) = ''2024-01-01T00:00:00Z'' \<and>
   construct_dch_payload iso_fragment_parser [sydney_signal, sydney_signal_str] =
     Inr \<lparr>points = [(''0'', ''evse:evse_kerbside_wholesale_price_drf:wholesale_price_drf'')],
          data = [\<lparr>t = ''2024-01-01T10:00:00Z'', p = ''0'', n = 0\<rparr>,
                  \<lparr>t = ''2024-01-01T10:00:00Z'', p = ''0'', n = 0\<rparr>]\<rparr>"
proof -
  have "timestamp_of iso_fragment_parser sydney_signal = Inr sydney_morning"
    by (simp add: timestamp_of_def sydney_signal_def)
  moreover have "timestamp_of iso_fragment_parser sydney_signal_str = Inr sydney_morning"
    by (simp add: timestamp_of_def sydney_signal_str_def parse_sydney)
  moreover have "tzinfo sydney_morning = Some 36000000000"
    by (simp add: sydney_morning_def)
  ultimately show ?thesis
    using utc_sydney build_sydney by simp
qed

text \<open>
  C2, amended: for every list of records whose timestamps can all be read, the builder
  returns, and the \<open>t\<close> field of each observation is made of the calendar and clock
  fields of the record's own timestamp, as carried or as parsed from its string: for a
  year from 1000 to 9999 the 20 characters \<open>YYYY-MM-DDTHH:MM:SSZ\<close>, with second
  precision and a literal \<open>Z\<close>. The offset is never read and no conversion is applied,
  so \<open>t\<close> is the instant in UTC when the timestamp has no offset or the offset zero.
\<close>

theorem timestamp_formatting:
  assumes "\<forall>s \<in> set R. \<forall>x. settlementdate s = Str x \<longrightarrow> (\<exists>d. fromisoformat x = Inr d)"
  shows "\<exists>env. construct_dch_payload fromisoformat R = Inr env \<and>
           length (data env) = length R \<and>
           (\<forall>i < length R. \<forall>d.
              settlementdate (R ! i) = DT d \<or>
              (\<exists>x. settlementdate (R ! i) = Str x \<and> fromisoformat x = Inr d) \<longrightarrow>
              t (data env ! i) = strftime_Z d \<and>
              t (data env ! i) = strftime_Z (d\<lparr>tzinfo := None\<rparr>) \<and>
              (valid_datetime d \<and> 1000 \<le> year d \<longrightarrow>
                 length (t (data env ! i)) = 20 \<and>
                 t (data env ! i) =
                   [digit (year d div 1000), digit (year d div 100), digit (year d div 10),
                    digit (year d),
                    CHR ''-'', digit (month d div 10), digit (month d),
                    CHR ''-'', digit (day d div 10), digit (day d),
                    CHR ''T'', digit (hour d div 10), digit (hour d),
                    CHR '':'', digit (minute d div 10), digit (minute d),
                    CHR '':'', digit (second d div 10), digit (second d), CHR ''Z'']) \<and>
              (valid_datetime d \<and> (tzinfo d = None \<or> tzinfo d = Some 0) \<longrightarrow>
                 t (data env ! i) = strftime_Z (utc_instant d)))"
proof -
  let ?ob = "\<lambda>s. projr (make_observation fromisoformat s)"
  have ok: "\<exists>d. timestamp_of fromisoformat s = Inr d" if "s \<in> set R" for s
    using assms that by (intro timestamp_of_total) blast
  then have "\<forall>s \<in> set R. \<exists>ob. make_observation fromisoformat s = Inr ob"
    by (blast dest: make_observation_Inr)
  then have "append_observations fromisoformat R [] = Inr (map ?ob R)"
    using append_observations_ok [of R fromisoformat "[]"] by simp
  then have build: "construct_dch_payload fromisoformat R =
      Inr \<lparr>points = (if R = [] then [] else [(''0'', composite_point_id)]), data = map ?ob R\<rparr>"
    by (simp add: construct_dch_payload_def)
  have each: "t (?ob (R ! i)) = strftime_Z d \<and>
      t (?ob (R ! i)) = strftime_Z (d\<lparr>tzinfo := None\<rparr>) \<and>
      (valid_datetime d \<and> 1000 \<le> year d \<longrightarrow>
         length (t (?ob (R ! i))) = 20 \<and>
         t (?ob (R ! i)) =
           [digit (year d div 1000), digit (year d div 100), digit (year d div 10),
            digit (year d),
            CHR ''-'', digit (month d div 10), digit (month d),
            CHR ''-'', digit (day d div 10), digit (day d),
            CHR ''T'', digit (hour d div 10), digit (hour d),
            CHR '':'', digit (minute d div 10), digit (minute d),
            CHR '':'', digit (second d div 10), digit (second d), CHR ''Z'']) \<and>
      (valid_datetime d \<and> (tzinfo d = None \<or> tzinfo d = Some 0) \<longrightarrow>
         t (?ob (R ! i)) = strftime_Z (utc_instant d))"
    if source: "settlementdate (R ! i) = DT d \<or>
        (\<exists>x. settlementdate (R ! i) = Str x \<and> fromisoformat x = Inr d)"
    for i d
  proof -
    from source have "timestamp_of fromisoformat (R ! i) = Inr d"
      by (auto simp: timestamp_of_def)
    then have own: "t (?ob (R ! i)) = strftime_Z d"
      by (simp add: make_observation_Inr)
    have "strftime_Z d =
           [digit (year d div 1000), digit (year d div 100), digit (year d div 10),
            digit (year d),
            CHR ''-'', digit (month d div 10), digit (month d),
            CHR ''-'', digit (day d div 10), digit (day d),
            CHR ''T'', digit (hour d div 10), digit (hour d),
            CHR '':'', digit (minute d div 10), digit (minute d),
            CHR '':'', digit (second d div 10), digit (second d), CHR ''Z'']"
      if "valid_datetime d" "1000 \<le> year d"
      using that by (intro strftime_Z_fields) (simp_all add: valid_datetime_def)
    then show ?thesis
      by (auto simp: own strftime_Z_ignores_offset utc_instant_no_offset)
  qed
  define env where "env = \<lparr>points = (if R = [] then [] else [(''0'', composite_point_id)]),
                           data = map ?ob R\<rparr>"
  have "construct_dch_payload fromisoformat R = Inr env"
    by (simp add: build env_def)
  moreover have "length (data env) = length R"
    by (simp add: env_def)
  moreover have "\<forall>i < length R. \<forall>d.
      settlementdate (R ! i) = DT d \<or>
      (\<exists>x. settlementdate (R ! i) = Str x \<and> fromisoformat x = Inr d) \<longrightarrow>
      t (data env ! i) = strftime_Z d \<and>
      t (data env ! i) = strftime_Z (d\<lparr>tzinfo := None\<rparr>) \<and>
      (valid_datetime d \<and> 1000 \<le> year d \<longrightarrow>
         length (t (data env ! i)) = 20 \<and>
         t (data env ! i) =
           [digit (year d div 1000), digit (year d div 100), digit (year d div 10),
            digit (year d),
            CHR ''-'', digit (month d div 10), digit (month d),
            CHR ''-'', digit (day d div 10), digit (day d),
            CHR ''T'', digit (hour d div 10), digit (hour d),
            CHR '':'', digit (minute d div 10), digit (minute d),
            CHR '':'', digit (second d div 10), digit (second d), CHR ''Z'']) \<and>
      (valid_datetime d \<and> (tzinfo d = None \<or> tzinfo d = Some 0) \<longrightarrow>
         t (data env ! i) = strftime_Z (utc_instant d))"
  proof (intro allI impI)
    fix i d
    assume "i < length R"
      and source: "settlementdate (R ! i) = DT d \<or>
        (\<exists>x. settlementdate (R ! i) = Str x \<and> fromisoformat x = Inr d)"
    then have nth: "data env ! i = ?ob (R ! i)"
      by (simp add: env_def)
    show "t (data env ! i) = strftime_Z d \<and>
      t (data env ! i) = strftime_Z (d\<lparr>tzinfo := None\<rparr>) \<and>
      (valid_datetime d \<and> 1000 \<le> year d \<longrightarrow>
         length (t (data env ! i)) = 20 \<and>
         t (data env ! i) =
           [digit (year d div 1000), digit (year d div 100), digit (year d div 10),
            digit (year d),
            CHR ''-'', digit (month d div 10), digit (month d),
            CHR ''-'', digit (day d div 10), digit (day d),
            CHR ''T'', digit (hour d div 10), digit (hour d),
            CHR '':'', digit (minute d div 10), digit (minute d),
            CHR '':'', digit (second d div 10), digit (second d), CHR ''Z'']) \<and>
      (valid_datetime d \<and> (tzinfo d = None \<or> tzinfo d = Some 0) \<longrightarrow>
         t (data env ! i) = strftime_Z (utc_instant d))"
      unfolding nth by (rule each [OF source])
  qed
  ultimately show ?thesis
    by blast
qed

theorem timestamp_formatting_witness:
  "settlementdate (mixed_signals ! 0) = DT sydney_morning \<and>
   settlementdate (mixed_signals ! 1) = Str ''2024-01-01T10:00:00+10:00'' \<and>
   iso_fragment_parser ''2024-01-01T10:00:00+10:00'' = Inr sydney_morning \<and>
   tzinfo sydney_morning = Some 36000000000 \<and>
   valid_datetime sydney_morning \<and> 1000 \<le> year sydney_morning \<and>
   settlementdate (mixed_signals ! 2) = DT (naive 2024 1 1 0 0 0) \<and>
   valid_datetime (naive 2024 1 1 0 0 0) \<and> tzinfo (naive 2024 1 1 0 0 0) = None \<and>
   strftime_Z (utc_instant (naive 2024 1 1 0 0 0)) = ''2024-01-01T00:00:00Z'' \<and>
   (\<exists>env. construct_dch_payload iso_fragment_parser mixed_signals = Inr env \<and>
      length (data env) = 3 \<and>
      t (data env ! 0) = ''2024-01-01T10:00:00Z'' \<and>
      t (data env ! 1) = ''2024-01-01T10:00:00Z'' \<and>
      t (data env ! 2) = ''2024-01-01T00:00:00Z'')"
proof -
  let ?utc = "naive 2024 1 1 0 0 0"
  have parses: "\<forall>s \<in> set mixed_signals. \<forall>x. settlementdate s = Str x \<longrightarrow>
      (\<exists>d. iso_fragment_parser x = Inr d)"
    by (simp add: mixed_signals_def sydney_signal_def sydney_signal_str_def good_signal_def
        parse_sydney)
  have len: "length mixed_signals = 3"
    by (simp add: mixed_signals_def)
  have src: "settlementdate (mixed_signals ! 0) = DT sydney_morning"
    "settlementdate (mixed_signals ! 1) = Str ''2024-01-01T10:00:00+10:00''"
    "settlementdate (mixed_signals ! 2) = DT ?utc"
    by (simp_all add: mixed_signals_def sydney_signal_def sydney_signal_str_def good_signal_def)
  have aware: "tzinfo sydney_morning = Some 36000000000" "valid_datetime sydney_morning"
    "1000 \<le> year sydney_morning"
    by (simp_all add: sydney_morning_def naive_def valid_datetime_def days_in_month_def)
  have plain: "valid_datetime ?utc" "tzinfo ?utc = None" "1000 \<le> year ?utc"
    by (simp_all add: naive_def valid_datetime_def days_in_month_def)
  from timestamp_formatting [OF parses]
  obtain env where env: "construct_dch_payload iso_fragment_parser mixed_signals = Inr env"
    "length (data env) = length mixed_signals"
    and fmt: "\<And>i d. i < length mixed_signals \<Longrightarrow>
        settlementdate (mixed_signals ! i) = DT d \<or>
        (\<exists>x. settlementdate (mixed_signals ! i) = Str x \<and> iso_fragment_parser x = Inr d) \<Longrightarrow>
        valid_datetime d \<and> 1000 \<le> year d \<Longrightarrow>
        t (data env ! i) =
          [digit (year d div 1000), digit (year d div 100), digit (year d div 10),
           digit (year d),
           CHR ''-'', digit (month d div 10), digit (month d),
           CHR ''-'', digit (day d div 10), digit (day d),
           CHR ''T'', digit (hour d div 10), digit (hour d),
           CHR '':'', digit (minute d div 10), digit (minute d),
           CHR '':'', digit (second d div 10), digit (second d), CHR ''Z'']"
    and utc: "\<And>i d. i < length mixed_signals \<Longrightarrow>
        settlementdate (mixed_signals ! i) = DT d \<or>
        (\<exists>x. settlementdate (mixed_signals ! i) = Str x \<and> iso_fragment_parser x = Inr d) \<Longrightarrow>
        valid_datetime d \<and> (tzinfo d = None \<or> tzinfo d = Some 0) \<Longrightarrow>
        t (data env ! i) = strftime_Z (utc_instant d)"
    by blast
  have t0: "t (data env ! 0) = ''2024-01-01T10:00:00Z''"
    using fmt [of 0 sydney_morning] src(1) aware len
    by (simp add: sydney_morning_def naive_def digit_def)
  have t1: "t (data env ! 1) = ''2024-01-01T10:00:00Z''"
    using fmt [of 1 sydney_morning] src(2) parse_sydney aware len
    by (simp add: sydney_morning_def naive_def digit_def)
  have t2: "t (data env ! 2) = ''2024-01-01T00:00:00Z''"
    using fmt [of 2 ?utc] src(3) plain len
    by (simp add: naive_def digit_def)
  have u2: "t (data env ! 2) = strftime_Z (utc_instant ?utc)"
    using utc [of 2 ?utc] src(3) plain len
    by simp
  from t2 u2 have "strftime_Z (utc_instant ?utc) = ''2024-01-01T00:00:00Z''"
    by simp
  with env len src aware plain t0 t1 t2 show ?thesis
    by (auto simp: parse_sydney)
qed

subsection \<open>The periodic job\<close>

text \<open>
  C9: when the fetch of the last hour returns no record, the handler answers with
  status 200 and the message that no price signals were found, and posts nothing.
\<close>

theorem periodic_no_records:
  "lambda_handler fromisoformat net (Inr []) =
     (\<lparr>resp_statusCode = 200,
       resp_body = JObj [(''message'', JStr ''No price signals found for the last hour'')]\<rparr>,
      [])"
  by (simp add: lambda_handler_def)

theorem periodic_no_records_witness:
  "lambda_handler iso_fragment_parser accepting_network (Inr []) =
     (\<lparr>resp_statusCode = 200,
       resp_body = JObj [(''message'', JStr ''No price signals found for the last hour'')]\<rparr>,
      [])"
  using periodic_no_records [of iso_fragment_parser accepting_network] .

subsection \<open>Chunking\<close>

declare batch_loop.simps [simp del]

lemma batch_loop_done: "length items \<le> i \<Longrightarrow> batch_loop items b i acc = acc"
  by (subst batch_loop.simps) simp

lemma batch_loop_step:
  "0 < b \<Longrightarrow> i < length items \<Longrightarrow>
   batch_loop items b i acc = batch_loop items b (i + b) (acc @ [take b (drop i items)])"
  by (subst batch_loop.simps) simp

lemma concat_batch_loop:
  "0 < b \<Longrightarrow> concat (batch_loop items b i acc) = concat acc @ drop i items"
proof (induction items b i acc rule: batch_loop.induct)
  case (1 items b i acc)
  show ?case
  proof (cases "i < length items")
    case True
    have "take b (drop i items) @ drop (i + b) items = drop i items"
      by (metis append_take_drop_id drop_drop add.commute)
    with 1 True show ?thesis
      by (simp add: batch_loop_step)
  next
    case False
    then show ?thesis
      by (simp add: batch_loop_done)
  qed
qed

lemma ceil_step:
  fixes b k :: nat
  assumes "0 < b" "0 < k"
  shows "(k + b - 1) div b = Suc ((k - b + b - 1) div b)"
proof -
  from assms obtain j where k: "k = Suc j"
    by (cases k) auto
  show ?thesis
  proof (cases "b \<le> k")
    case True
    then have "k - b + b - 1 = j" using k by simp
    moreover have "k + b - 1 = j + b" using k by simp
    ultimately show ?thesis using assms k by simp
  next
    case False
    then have "j < b" "k - b + b - 1 = b - 1" using k by simp_all
    moreover have "k + b - 1 = j + b" using k by simp
    ultimately show ?thesis using assms by simp
  qed
qed

lemma length_batch_loop:
  "0 < b \<Longrightarrow>
   length (batch_loop items b i acc) = length acc + (length items - i + b - 1) div b"
proof (induction items b i acc rule: batch_loop.induct)
  case (1 items b i acc)
  show ?case
  proof (cases "i < length items")
    case True
    then have "(length items - i + b - 1) div b = Suc ((length items - i - b + b - 1) div b)"
      using ceil_step [of b "length items - i"] 1 by simp
    with 1 True show ?thesis
      by (simp add: batch_loop_step)
  next
    case False
    with 1 show ?thesis
      by (simp add: batch_loop_done)
  qed
qed


lemma full_batch_loop:
  "0 < b \<Longrightarrow> \<forall>c \<in> set acc. length c = b \<Longrightarrow> Suc k < length (batch_loop items b i acc) \<Longrightarrow>
   length (batch_loop items b i acc ! k) = b"
proof (induction items b i acc rule: batch_loop.induct)
  case (1 items b i acc)
  show ?case
  proof (cases "i < length items")
    case False
    then have "batch_loop items b i acc = acc"
      by (simp add: batch_loop_done)
    with "1.prems" show ?thesis
      by simp
  next
    case True
    note step = batch_loop_step [OF \<open>0 < b\<close> True, of acc]
    show ?thesis
    proof (cases "i + b \<le> length items")
      case full: True
      then have "\<forall>c \<in> set (acc @ [take b (drop i items)]). length c = b"
        using "1.prems"(2) by simp
      moreover have "Suc k < length (batch_loop items b (i + b) (acc @ [take b (drop i items)]))"
        using "1.prems"(3) by (simp only: step)
      ultimately have "length (batch_loop items b (i + b) (acc @ [take b (drop i items)]) ! k) = b"
        using "1.IH" \<open>0 < b\<close> True by blast
      then show ?thesis
        by (simp only: step)
    next
      case False
      then have stop: "batch_loop items b i acc = acc @ [take b (drop i items)]"
        by (simp add: step batch_loop_done)
      from "1.prems"(3) have "k < length acc"
        by (simp add: stop)
      with "1.prems"(2) show ?thesis
        by (simp add: stop nth_append)
    qed
  qed
qed

lemma last_batch_loop:
  "0 < b \<Longrightarrow> acc \<noteq> [] \<longrightarrow> 1 \<le> length (last acc) \<and> length (last acc) \<le> b \<Longrightarrow>
   i < length items \<or> acc \<noteq> [] \<Longrightarrow>
   batch_loop items b i acc \<noteq> [] \<and>
   1 \<le> length (last (batch_loop items b i acc)) \<and> length (last (batch_loop items b i acc)) \<le> b"
proof (induction items b i acc rule: batch_loop.induct)
  case (1 items b i acc)
  show ?case
  proof (cases "i < length items")
    case False
    then have "batch_loop items b i acc = acc"
      by (simp add: batch_loop_done)
    with "1.prems" False show ?thesis
      by simp
  next
    case True
    let ?acc = "acc @ [take b (drop i items)]"
    have "?acc \<noteq> [] \<longrightarrow> 1 \<le> length (last ?acc) \<and> length (last ?acc) \<le> b"
      using True \<open>0 < b\<close> by simp
    moreover have "i + b < length items \<or> ?acc \<noteq> []"
      by simp
    ultimately have "batch_loop items b (i + b) ?acc \<noteq> [] \<and>
        1 \<le> length (last (batch_loop items b (i + b) ?acc)) \<and>
        length (last (batch_loop items b (i + b) ?acc)) \<le> b"
      using "1.IH" \<open>0 < b\<close> True by blast
    then show ?thesis
      by (simp add: batch_loop_step [OF \<open>0 < b\<close> True, of acc])
  qed
qed

lemma ceiling_div_50: "\<lceil>real k / 50\<rceil> = int ((k + 49) div 50)"
proof -
  define q where "q = (k + 49) div 50"
  have "q * 50 \<le> k + 49"
    unfolding q_def by (rule div_times_less_eq_dividend)
  then have "real (q * 50) \<le> real (k + 49)"
    by (rule of_nat_mono)
  then have lower: "real q * 50 \<le> real k + 49"
    by simp
  have "k + 49 < 50 + q * 50"
    unfolding q_def by (rule dividend_less_div_times) simp
  then have "k \<le> q * 50"
    by simp
  then have "real k \<le> real (q * 50)"
    by (rule of_nat_mono)
  then have upper: "real k \<le> real q * 50"
    by simp
  from lower upper have "\<lceil>real k / 50\<rceil> = int q"
    by (intro ceiling_unique) simp_all
  then show ?thesis
    by (simp only: q_def)
qed

text \<open>
  C6: with chunk size 50 a list of length \<open>N\<close> is cut into \<open>\<lceil>N / 50\<rceil>\<close> chunks; the
  chunks concatenated in order give the list back; every chunk but the last has exactly
  50 elements; the last one, when the list is not empty, has between 1 and 50.
\<close>

theorem batch_list_partition:
  "\<exists>batches. batch_list items BATCH_SIZE = Inr batches \<and>
     int (length batches) = \<lceil>real (length items) / 50\<rceil> \<and>
     concat batches = items \<and>
     (\<forall>k. Suc k < length batches \<longrightarrow> length (batches ! k) = 50) \<and>
     (items \<noteq> [] \<longrightarrow>
        batches \<noteq> [] \<and> 1 \<le> length (last batches) \<and> length (last batches) \<le> 50)"
proof -
  let ?batches = "batch_loop items 50 0 []"
  have "batch_list items BATCH_SIZE = Inr ?batches"
    by (simp add: batch_list_def BATCH_SIZE_def)
  moreover have "int (length ?batches) = \<lceil>real (length items) / 50\<rceil>"
    by (simp add: length_batch_loop ceiling_div_50)
  moreover have "concat ?batches = items"
    by (simp add: concat_batch_loop)
  moreover have "\<forall>k. Suc k < length ?batches \<longrightarrow> length (?batches ! k) = 50"
    using full_batch_loop [of 50 "[]" _ items 0] by simp
  moreover have "items \<noteq> [] \<longrightarrow>
      ?batches \<noteq> [] \<and> 1 \<le> length (last ?batches) \<and> length (last ?batches) \<le> 50"
    using last_batch_loop [of 50 "[]" 0 items] by simp
  ultimately show ?thesis
    by blast
qed

theorem batch_list_partition_witness:
  "batch_list [0 ..< 120] BATCH_SIZE = Inr [[0 ..< 50], [50 ..< 100], [100 ..< 120]] \<and>
   int (length [[0 ..< 50], [50 ..< 100], [100 ..< 120 :: nat]]) = \<lceil>real (length [0 ..< 120]) / 50\<rceil> \<and>
   concat [[0 ..< 50], [50 ..< 100], [100 ..< 120]] = [0 ..< 120] \<and>
   length [0 ..< 50] = 50 \<and> length [50 ..< 100] = 50 \<and> length [100 ..< 120] = 20"
proof -
  have run: "batch_list [0 ..< 120] BATCH_SIZE = Inr [[0 ..< 50], [50 ..< 100], [100 ..< 120]]"
    by code_simp
  from batch_list_partition [of "[0 ..< 120]"]
  obtain batches where b: "batch_list [0 ..< 120] BATCH_SIZE = Inr batches"
    "int (length batches) = \<lceil>real (length [0 ..< 120]) / 50\<rceil>"
    "concat batches = [0 ..< 120]"
    by blast
  from b(1) have "batches = [[0 ..< 50], [50 ..< 100], [100 ..< 120]]"
    by (simp only: run sum.inject)
  with b(2,3) run show ?thesis
    by simp
qed

subsection \<open>The batch job\<close>

lemma process_batch_build_fails:
  "construct_dch_payload f b = Inl e \<Longrightarrow>
   process_batch f net st b = st\<lparr>failed_uploads := failed_uploads st + 1\<rparr>"
  by (simp add: process_batch_def)

lemma process_batch_upload:
  "construct_dch_payload f b = Inr e \<Longrightarrow>
   process_batch f net st b =
     (case net (length (sent_payloads st)) e of
        Response code text \<Rightarrow>
          st\<lparr>sent_payloads := sent_payloads st @ [e],
             successful_uploads := successful_uploads st + 1\<rparr>
      | Raised m \<Rightarrow>
          st\<lparr>sent_payloads := sent_payloads st @ [e],
             failed_uploads := failed_uploads st + 1\<rparr>)"
  by (simp add: process_batch_def upload_to_dch_def split: http_outcome.splits)

lemma process_batch_counts:
  "(successful_uploads (process_batch f net st b) = successful_uploads st + 1 \<and>
    failed_uploads (process_batch f net st b) = failed_uploads st) \<or>
   (successful_uploads (process_batch f net st b) = successful_uploads st \<and>
    failed_uploads (process_batch f net st b) = failed_uploads st + 1)"
proof (cases "construct_dch_payload f b")
  case (Inl e)
  then show ?thesis by (simp add: process_batch_build_fails)
next
  case (Inr e)
  then show ?thesis
    by (cases "net (length (sent_payloads st)) e") (simp_all add: process_batch_upload)
qed

lemma process_batch_sent:
  "sent_payloads (process_batch f net st b) = sent_payloads st @ built_payloads f [b]"
proof (cases "construct_dch_payload f b")
  case (Inl e)
  then show ?thesis by (simp add: process_batch_build_fails built_payloads_def)
next
  case (Inr e)
  then show ?thesis
    by (cases "net (length (sent_payloads st)) e")
      (simp_all add: process_batch_upload built_payloads_def)
qed

lemma built_payloads_Cons:
  "built_payloads f (b # bs) = built_payloads f [b] @ built_payloads f bs"
  by (simp add: built_payloads_def)

lemma upload_batches_total:
  "successful_uploads (upload_batches f net batches st) +
   failed_uploads (upload_batches f net batches st) =
   successful_uploads st + failed_uploads st + int (length batches)"
proof (induction batches arbitrary: st)
  case Nil
  show ?case by simp
next
  case (Cons b batches)
  from process_batch_counts [of f net st b] Cons.IH [of "process_batch f net st b"]
  show ?case by auto
qed

lemma upload_batches_mono:
  "successful_uploads st \<le> successful_uploads (upload_batches f net batches st) \<and>
   failed_uploads st \<le> failed_uploads (upload_batches f net batches st)"
proof (induction batches arbitrary: st)
  case Nil
  show ?case by simp
next
  case (Cons b batches)
  from process_batch_counts [of f net st b] Cons.IH [of "process_batch f net st b"]
  show ?case by auto
qed

lemma upload_batches_sent:
  "sent_payloads (upload_batches f net batches st) = sent_payloads st @ built_payloads f batches"
proof (induction batches arbitrary: st)
  case Nil
  show ?case by (simp add: built_payloads_def)
next
  case (Cons b batches)
  have "sent_payloads (upload_batches f net (b # batches) st) =
      sent_payloads (process_batch f net st b) @ built_payloads f batches"
    by (simp add: Cons.IH)
  also have "\<dots> = sent_payloads st @ built_payloads f (b # batches)"
    by (simp add: process_batch_sent built_payloads_Cons [of f b batches])
  finally show ?case .
qed

lemma upload_batches_build_fails:
  "b \<in> set batches \<Longrightarrow> construct_dch_payload f b = Inl e \<Longrightarrow>
   failed_uploads st + 1 \<le> failed_uploads (upload_batches f net batches st)"
proof (induction batches arbitrary: st)
  case Nil
  then show ?case by simp
next
  case (Cons a batches)
  show ?case
  proof (cases "a = b")
    case True
    have "failed_uploads (process_batch f net st b) \<le>
        failed_uploads (upload_batches f net batches (process_batch f net st b))"
      using upload_batches_mono [of "process_batch f net st b" f net batches] by simp
    with True Cons.prems(2) show ?thesis
      by (simp add: process_batch_build_fails)
  next
    case False
    with Cons.prems have "b \<in> set batches" by simp
    from Cons.IH [OF this Cons.prems(2), of "process_batch f net st a"]
      process_batch_counts [of f net st a]
    show ?thesis by auto
  qed
qed



lemma main_run:
  "price_signals \<noteq> [] \<Longrightarrow>
   main f net (Inr price_signals) =
     (let st = upload_batches f net (batch_loop price_signals 50 0 [])
                 \<lparr>sent_payloads = [], successful_uploads = 0, failed_uploads = 0\<rparr>
      in \<lparr>exit_code = (if failed_uploads st = 0 then 0 else 1),
          posted = sent_payloads st,
          summary = Some (int (length price_signals),
                          successful_uploads st, failed_uploads st)\<rparr>)"
  by (simp add: main_def batch_list_def BATCH_SIZE_def)


lemma build_replicate_good:
  "0 < k \<Longrightarrow>
   construct_dch_payload f (replicate k good_signal) =
     Inr \<lparr>points = [(''0'', composite_point_id)],
          data = replicate k \<lparr>t = ''2024-01-01T00:00:00Z'', p = ''0'', n = 0\<rparr>\<rparr>"
proof -
  assume "0 < k"
  have ob: "make_observation f good_signal =
      Inr \<lparr>t = ''2024-01-01T00:00:00Z'', p = ''0'', n = 0\<rparr>"
    by (simp add: good_signal_def builder_defs naive_def)
  then have "append_observations f (replicate k good_signal) [] =
      Inr (map (\<lambda>s. projr (make_observation f s)) (replicate k good_signal))"
    using append_observations_ok [of "replicate k good_signal" f "[]"] by simp
  with \<open>0 < k\<close> ob show ?thesis
    by (simp add: construct_dch_payload_def)
qed




lemma build_fails_on_bad_record:
  assumes "s \<in> set R" and "settlementdate s = Str x" and "f x = Inl m"
  shows "\<exists>e. construct_dch_payload f R = Inl e"
proof -
  from assms(2,3) have "make_observation f s = Inl (ValueError m)"
    by (simp add: make_observation_Inl timestamp_of_Inl)
  from append_observations_fail [OF assms(1) this, of "[]"] assms(1) show ?thesis
    by (auto simp: construct_dch_payload_def)
qed

lemma batches_bad_51:
  "batch_list (bad_signal # replicate 50 good_signal) BATCH_SIZE =
     Inr [bad_signal # replicate 49 good_signal, replicate 1 good_signal]"
  by (simp add: batch_list_def BATCH_SIZE_def batch_loop_step batch_loop_done)

lemma build_bad_chunk:
  "construct_dch_payload iso_fragment_parser (bad_signal # replicate 49 good_signal) =
     Inl (ValueError (invalid_isoformat ''not-a-date''))"
  by (simp add: construct_dch_payload_def make_observation_def timestamp_of_def bad_signal_def
      parse_bad)

lemma main_bad_51:
  "main iso_fragment_parser accepting_network (Inr (bad_signal # replicate 50 good_signal)) =
     \<lparr>exit_code = 1,
      posted = [\<lparr>points = [(''0'', composite_point_id)],
                 data = replicate 1 \<lparr>t = ''2024-01-01T00:00:00Z'', p = ''0'', n = 0\<rparr>\<rparr>],
      summary = Some (51, 1, 1)\<rparr>"
proof -
  have "batch_loop (bad_signal # replicate 50 good_signal) 50 0 [] =
      [bad_signal # replicate 49 good_signal, replicate 1 good_signal]"
    using batches_bad_51 by (simp add: batch_list_def BATCH_SIZE_def)
  moreover have "construct_dch_payload iso_fragment_parser (replicate 1 good_signal) =
      Inr \<lparr>points = [(''0'', composite_point_id)],
           data = replicate 1 \<lparr>t = ''2024-01-01T00:00:00Z'', p = ''0'', n = 0\<rparr>\<rparr>"
    by (rule build_replicate_good) simp
  ultimately show ?thesis
    by (simp add: main_run process_batch_build_fails [OF build_bad_chunk] process_batch_upload
        accepting_network_def)
qed

text \<open>
  C3, as stated, fails: a parse failure does not abort the run. With 51 records of
  which the first carries an unreadable string, the first batch cannot be built, yet
  the run goes on, posts the second batch, and reports 1 successful and 1 failed batch.
\<close>

theorem parse_failure_aborts_counterexample:
  "settlementdate bad_signal = Str ''not-a-date'' \<and>
   iso_fragment_parser ''not-a-date'' = Inl (invalid_isoformat ''not-a-date'') \<and>
   batch_list (bad_signal # replicate 50 good_signal) BATCH_SIZE =
     Inr [bad_signal # replicate 49 good_signal, replicate 1 good_signal] \<and>
   construct_dch_payload iso_fragment_parser (bad_signal # replicate 49 good_signal) =
     Inl (ValueError (invalid_isoformat ''not-a-date'')) \<and>
   main iso_fragment_parser accepting_network (Inr (bad_signal # replicate 50 good_signal)) =
     \<lparr>exit_code = 1,
      posted = [\<lparr>points = [(''0'', composite_point_id)],
                 data = replicate 1 \<lparr>t = ''2024-01-01T00:00:00Z'', p = ''0'', n = 0\<rparr>\<rparr>],
      summary = Some (51, 1, 1)\<rparr>"
  using parse_bad batches_bad_51 build_bad_chunk main_bad_51
  by (simp add: bad_signal_def)

text \<open>
  C3, amended: in the batch job a parse failure while building a batch's envelope is
  confined to that batch, like a failed upload: the batch is counted as failed and
  nothing is posted for it, the run continues with the following batches, posts every
  batch that can be built, reaches its closing summary and ends with exit code 1.
\<close>

theorem parse_failure_confined:
  assumes "s \<in> set price_signals" and "settlementdate s = Str x" and "fromisoformat x = Inl m"
  shows "(\<exists>succeeded failed.
            main fromisoformat net (Inr price_signals) =
              \<lparr>exit_code = 1,
               posted = built_payloads fromisoformat (batch_loop price_signals 50 0 []),
               summary = Some (int (length price_signals), succeeded, failed)\<rparr> \<and>
            1 \<le> failed \<and> 0 \<le> succeeded \<and>
            succeeded + failed = int (length (batch_loop price_signals 50 0 []))) \<and>
         (construct_dch_payload fromisoformat batch = Inl e \<longrightarrow>
            process_batch fromisoformat net st0 batch =
              st0\<lparr>failed_uploads := failed_uploads st0 + 1\<rparr>)"
proof -
  let ?batches = "batch_loop price_signals 50 0 []"
  let ?init = "\<lparr>sent_payloads = [], successful_uploads = 0, failed_uploads = 0\<rparr>"
  let ?st = "upload_batches fromisoformat net ?batches ?init"
  have "concat ?batches = price_signals"
    by (simp add: concat_batch_loop)
  with assms(1) obtain b where b: "b \<in> set ?batches" "s \<in> set b"
    by (metis UN_E set_concat)
  from build_fails_on_bad_record [of s b x fromisoformat m, OF b(2) assms(2,3)]
  obtain e' where "construct_dch_payload fromisoformat b = Inl e'"
    by blast
  from upload_batches_build_fails [OF b(1) this, of ?init net]
  have failed: "1 \<le> failed_uploads ?st"
    by simp
  have "0 \<le> successful_uploads ?st"
    using upload_batches_mono [of ?init fromisoformat net ?batches] by simp
  moreover have "successful_uploads ?st + failed_uploads ?st = int (length ?batches)"
    using upload_batches_total [of fromisoformat net ?batches ?init] by simp
  moreover from assms(1) have "price_signals \<noteq> []"
    by auto
  then have "main fromisoformat net (Inr price_signals) =
      \<lparr>exit_code = 1, posted = built_payloads fromisoformat ?batches,
       summary = Some (int (length price_signals), successful_uploads ?st, failed_uploads ?st)\<rparr>"
    using failed by (simp add: main_run Let_def upload_batches_sent)
  ultimately show ?thesis
    using failed by (auto simp: process_batch_build_fails)
qed

theorem parse_failure_confined_witness:
  "bad_signal \<in> set (bad_signal # replicate 50 good_signal) \<and>
   settlementdate bad_signal = Str ''not-a-date'' \<and>
   iso_fragment_parser ''not-a-date'' = Inl (invalid_isoformat ''not-a-date'') \<and>
   exit_code (main iso_fragment_parser accepting_network
                (Inr (bad_signal # replicate 50 good_signal))) = 1 \<and>
   posted (main iso_fragment_parser accepting_network
             (Inr (bad_signal # replicate 50 good_signal))) =
     built_payloads iso_fragment_parser
       [bad_signal # replicate 49 good_signal, replicate 1 good_signal] \<and>
   summary (main iso_fragment_parser accepting_network
              (Inr (bad_signal # replicate 50 good_signal))) = Some (51, 1, 1)"
proof -
  have a: "bad_signal \<in> set (bad_signal # replicate 50 good_signal)"
    by simp
  have b: "settlementdate bad_signal = Str ''not-a-date''"
    by (simp add: bad_signal_def)
  have chunks: "batch_loop (bad_signal # replicate 50 good_signal) 50 0 [] =
      [bad_signal # replicate 49 good_signal, replicate 1 good_signal]"
    using batches_bad_51 by (simp add: batch_list_def BATCH_SIZE_def)
  from parse_failure_confined [of bad_signal "bad_signal # replicate 50 good_signal"
      "''not-a-date''" iso_fragment_parser "(invalid_isoformat ''not-a-date'')"
      accepting_network, OF a b parse_bad]
  obtain succeeded failed where run:
    "main iso_fragment_parser accepting_network (Inr (bad_signal # replicate 50 good_signal)) =
       \<lparr>exit_code = 1,
        posted = built_payloads iso_fragment_parser
                   (batch_loop (bad_signal # replicate 50 good_signal) 50 0 []),
        summary = Some (int (length (bad_signal # replicate 50 good_signal)),
                        succeeded, failed)\<rparr>"
    by blast
  from run main_bad_51 have "succeeded = 1" "failed = 1"
    by simp_all
  with run a b show ?thesis
    by (simp add: chunks parse_bad)
qed

end
